theory Spec2Isabelle
  imports Complex_Main "HOL-Library.Sublist"
begin

section \<open>Data model\<close>

text \<open>
  The bot is JavaScript. Its numbers (amounts, quantities, response codes) are modelled
  as exact rationals, its timestamps and block heights as integers, its strings as
  \<open>string\<close>. A property that may be \<open>undefined\<close> is an \<open>option\<close>.
  A thrown value is a \<open>js_error\<close>.
\<close>

type_synonym number = rat

datatype js_error =
    TypeError
  | InvalidPrivateKey
  | InvalidTransactionMetaDataPair

text \<open>\<open>meta.hash\<close> and \<open>meta.innerHash\<close> are objects with a \<open>data\<close> property.\<close>

record hash_obj =
  hash_data :: "string option"

record meta_data =
  meta_hash :: "hash_obj option"
  meta_innerHash :: "hash_obj option"
  meta_data_field :: "string option"

record mosaic_id =
  namespaceId :: string
  mosaic_name :: string

record mosaic =
  mosaicId :: mosaic_id
  quantity :: number

text \<open>
  A transaction object as the node delivers it. A multisig transaction wraps the real
  transaction in \<open>otherTrans\<close>.
\<close>

datatype trx = Trx
  (trx_type: int)
  (trx_signer: string)
  (trx_signature: string)
  (trx_amount: number)
  (trx_mosaics: "mosaic list option")
  (trx_otherTrans: "trx option")

record transactionMetaDataPair =
  pair_meta :: meta_data
  pair_transaction :: trx

text \<open>
  The parts of the ledger SDK that the code calls and that are not part of the
  repository are parameters: the type code of a multisig transaction, the private key
  check, the address derivation and the construction of the signed payload.
\<close>

record sdk =
  multisigTransaction :: int
  isPrivateKeyValid :: "string \<Rightarrow> bool"
  toAddress :: "string \<Rightarrow> int \<Rightarrow> string"
  signedPayload :: "string \<Rightarrow> string \<Rightarrow> string option \<Rightarrow> int \<Rightarrow> string"

section \<open>Reading a transaction: hash and amount (blockchain service)\<close>

text \<open>
  \<^verbatim>\<open>var trxHash = meta.hash ? meta.hash.data : meta.data;
if (inner === true && meta.innerHash && meta.innerHash.data && meta.innerHash.data.length)
    trxHash = meta.innerHash.data;
return trxHash;\<close>
  A string is truthy when it is not empty.
\<close>

definition getTransactionHash :: "transactionMetaDataPair \<Rightarrow> bool \<Rightarrow> string option" where
  "getTransactionHash transactionMetaDataPair inner =
     (let meta = pair_meta transactionMetaDataPair;
          trxHash = (case meta_hash meta of Some h \<Rightarrow> hash_data h | None \<Rightarrow> meta_data_field meta)
      in case meta_innerHash meta of
           None \<Rightarrow> trxHash
         | Some ih \<Rightarrow>
             (case hash_data ih of
                None \<Rightarrow> trxHash
              | Some d \<Rightarrow> if inner \<and> d \<noteq> [] \<and> length d \<noteq> 0 then Some d else trxHash))"

text \<open>
  \<^verbatim>\<open>mosaicSlug.replace(/:[^:]+$/, '')\<close>: the pattern is a colon followed by one or more
  characters that are not colons, up to the end. Only the last colon of the slug can
  match, and only when something follows it; the match is then removed.
\<close>

definition lookupNS :: "string \<Rightarrow> string" where
  "lookupNS mosaicSlug =
     (let tail = takeWhile (\<lambda>c. c \<noteq> CHR '':'') (rev mosaicSlug)
      in if tail \<noteq> [] \<and> length tail < length mosaicSlug
         then take (length mosaicSlug - length tail - 1) mosaicSlug
         else mosaicSlug)"

text \<open>
  \<^verbatim>\<open>mosaicSlug.replace(/^[^:]+:/, '')\<close>: one or more characters that are not colons at
  the start, followed by a colon; the match is removed.
\<close>

definition lookupMos :: "string \<Rightarrow> string" where
  "lookupMos mosaicSlug =
     (let front = takeWhile (\<lambda>c. c \<noteq> CHR '':'') mosaicSlug
      in if front \<noteq> [] \<and> length front < length mosaicSlug
         then drop (length front + 1) mosaicSlug
         else mosaicSlug)"

text \<open>
  The loop \<^verbatim>\<open>for (var i in realContent.mosaics)\<close>: the first mosaic whose namespace and
  name equal the looked-up ones decides the result; when the loop ends without one, the
  result is 0.
\<close>

fun mosaicsLoop :: "number \<Rightarrow> string \<Rightarrow> string \<Rightarrow> mosaic list \<Rightarrow> number" where
  "mosaicsLoop multiplier ns mos [] = 0"
| "mosaicsLoop multiplier ns mos (m # ms) =
     (let isLookupMosaic = (namespaceId (mosaicId m) = ns \<and> mosaic_name (mosaicId m) = mos)
      in if \<not> isLookupMosaic then mosaicsLoop multiplier ns mos ms
         else multiplier * quantity m)"

text \<open>
  \<open>realContent\<close> is \<open>content.otherTrans\<close> for a multisig transaction and \<open>content\<close>
  otherwise; reading a property of a missing \<open>otherTrans\<close> throws a TypeError.
\<close>

definition realContent :: "sdk \<Rightarrow> trx \<Rightarrow> trx option" where
  "realContent nem content =
     (let isMultiSig = (trx_type content = multisigTransaction nem)
      in if isMultiSig then trx_otherTrans content else Some content)"

definition isMosaic :: "trx \<Rightarrow> bool" where
  "isMosaic rc = (case trx_mosaics rc of None \<Rightarrow> False | Some ms \<Rightarrow> length ms > 0)"

definition getTransactionAmount ::
  "sdk \<Rightarrow> transactionMetaDataPair \<Rightarrow> string \<Rightarrow> nat \<Rightarrow> js_error + number" where
  "getTransactionAmount nem transactionMetaDataPair mosaicSlug divisibility =
     (let content = pair_transaction transactionMetaDataPair
      in case realContent nem content of
           None \<Rightarrow> Inl TypeError
         | Some rc \<Rightarrow>
             if isMosaic rc
             then (let multiplier = trx_amount rc / 10 ^ divisibility
                   in Inr (mosaicsLoop multiplier (lookupNS mosaicSlug) (lookupMos mosaicSlug)
                             (case trx_mosaics rc of None \<Rightarrow> [] | Some ms \<Rightarrow> ms)))
             else if mosaicSlug \<noteq> ''nem:xem'' then Inr 0
             else Inr (trx_amount rc))"

text \<open>The call \<^verbatim>\<open>getTransactionAmount(transactionMetaDataPair)\<close> with the default arguments.\<close>

definition getTransactionAmountDefault :: "sdk \<Rightarrow> transactionMetaDataPair \<Rightarrow> js_error + number" where
  "getTransactionAmountDefault nem transactionMetaDataPair =
     getTransactionAmount nem transactionMetaDataPair ''nem:xem'' 6"

section \<open>Configuration, store and effects of the co-signing module\<close>

text \<open>
  \<open>bot.sign.cosignatory.acceptFrom\<close> is a string or an array of public keys.
\<close>

datatype cosigs = CosigString string | CosigArray "string list"

record node =
  node_host :: string
  node_port :: int

record bot_conf =
  conf_dailyAmount :: number
  conf_acceptFrom :: cosigs
  conf_multisigAddress :: string
  conf_nodes :: "node list"

text \<open>
  The blockchain service: the configuration, the wallets it read at start
  (\<open>getBotSignMultisigWallet\<close>, \<open>getBotSignWallet\<close>, \<open>getBotSignSecret\<close>), the active
  endpoint \<open>node_\<close> and the network id of \<open>getNetwork().config\<close>. An absent
  \<open>bot.sign.dailyAmount\<close> is the number 0: both fail the test \<open>dailyMax > 0\<close>.
\<close>

record blockchain =
  bc_conf :: bot_conf
  botSignMultisig :: string
  botSignWallet :: string
  botSignSecret :: string
  bc_node :: node
  networkId :: int

text \<open>
  The MultisigCosignatory instance: its \<open>blockchain_\<close> and its \<open>nemsocket_\<close>, which is
  \<open>null\<close> until \<open>connectBlockchainSocket\<close> assigns it; here it holds the socket's
  \<open>socketpt\<close>.
\<close>

record cosignatory =
  cos_blockchain :: blockchain
  cos_nemsocket :: "string option"

record NEMSignedTransaction =
  multisigXEM :: string
  cosignerXEM :: string
  transactionHash :: "string option"
  socketHost :: string
  rowTransactionData :: transactionMetaDataPair
  amountXEM :: number
  createdAt :: int

datatype log_entry =
    DatabaseError string
  | LimitReached number
  | LimitWouldBePassed number
  | SigningAborted js_error
  | AnnounceError string
  | CoSigned "string option" string
  | SigningError string

text \<open>
  What a run of the handler can change: the rows of NEMSignedTransaction, the payloads
  handed to the announce request (in order), and the log.
\<close>

record world =
  signedTransactions :: "NEMSignedTransaction list"
  announced :: "string list"
  logged :: "log_entry list"

definition logger :: "log_entry \<Rightarrow> world \<Rightarrow> world" where
  "logger e w = w\<lparr>logged := logged w @ [e]\<rparr>"

text \<open>
  A run ends normally, or with an exception that no \<open>try\<close> of the module catches
  (thrown inside a database callback or a promise continuation).
\<close>

datatype outcome = Completed world | Uncaught js_error world

fun world_of :: "outcome \<Rightarrow> world" where
  "world_of (Completed w) = w"
| "world_of (Uncaught e w) = w"

record response =
  res_code :: number
  res_message :: string

datatype announce_result = Resolved response | Rejected string

text \<open>
  What the environment answers during one run of the handler: the error of the
  \<open>findOne\<close> query (if any), the settlement of the announce promise, and the clock.
\<close>

record handler_env =
  findOneErr :: "string option"
  announceResult :: announce_result
  clock :: int

section \<open>MultisigCosignatory\<close>

text \<open>
  \<^verbatim>\<open>if (typeof cosigs == "string") return cosigs === cosigPubKey;
for (var i in cosigs) { var valid = cosigs[i]; if (valid === cosigPubKey) return true; }
return false;\<close>
\<close>

fun acceptLoop :: "string list \<Rightarrow> string \<Rightarrow> bool" where
  "acceptLoop [] cosigPubKey = False"
| "acceptLoop (valid # rest) cosigPubKey =
     (if valid = cosigPubKey then True else acceptLoop rest cosigPubKey)"

definition isAcceptedCosignatory :: "cosignatory \<Rightarrow> string \<Rightarrow> bool" where
  "isAcceptedCosignatory self cosigPubKey =
     (case conf_acceptFrom (bc_conf (cos_blockchain self)) of
        CosigString cosigs \<Rightarrow> cosigs = cosigPubKey
      | CosigArray cosigs \<Rightarrow> acceptLoop cosigs cosigPubKey)"

text \<open>
  verifyTransaction. The address of the real account is derived and stripped of dashes
  before the allow-list is consulted; the signature check itself is commented out in the
  source, so the function ends with \<open>return true\<close>.
\<close>

definition verifyTransaction ::
  "sdk \<Rightarrow> cosignatory \<Rightarrow> transactionMetaDataPair \<Rightarrow> js_error + bool" where
  "verifyTransaction nem self transactionMetaDataPair =
     (let content = pair_transaction transactionMetaDataPair;
          isMultisig = (trx_type content = multisigTransaction nem);
          trxRealData = (if isMultisig then trx_otherTrans content else Some content);
          trxInitiatorPubKey = trx_signer content
      in case trxRealData of
           None \<Rightarrow> Inl TypeError
         | Some rd \<Rightarrow>
             (let trxAcctPubKey = trx_signer rd;
                  trxRealAccount =
                    filter (\<lambda>c. c \<noteq> CHR ''-'')
                      (toAddress nem trxAcctPubKey (networkId (cos_blockchain self)));
                  multisigAccount = conf_multisigAddress (bc_conf (cos_blockchain self))
              in if \<not> isAcceptedCosignatory self trxInitiatorPubKey then Inr False
                 else if trxRealAccount \<noteq> multisigAccount then Inr False
                 else Inr True))"

text \<open>
  The continuation of the announce promise:
  \<^verbatim>\<open>if (res.code >= 2) { logger.error(...) }
else if ("SUCCESS" == res.message) { logger.info(...); callback(res); }
// "NEUTRAL" will not trigger callback\<close>
\<close>

definition announceThen ::
  "string option \<Rightarrow> (response \<Rightarrow> world \<Rightarrow> outcome) \<Rightarrow> response \<Rightarrow> world \<Rightarrow> outcome" where
  "announceThen trxHash callback res w =
     (if res_code res \<ge> 2 then Completed (logger (AnnounceError (res_message res)) w)
      else if ''SUCCESS'' = res_message res
           then callback res (logger (CoSigned trxHash (res_message res)) w)
           else Completed w)"

text \<open>
  Step (3) of signTransaction: the signature transaction for the multisig wallet and
  the hash is prepared, serialised and signed through the SDK, and the result is the
  payload of the announce request.
\<close>

definition broadcastable :: "sdk \<Rightarrow> cosignatory \<Rightarrow> string option \<Rightarrow> string" where
  "broadcastable nem self trxHash =
     (let privateKey = botSignSecret (cos_blockchain self);
          multisigWallet = botSignMultisig (cos_blockchain self);
          netId = networkId (cos_blockchain self)
      in signedPayload nem privateKey multisigWallet trxHash netId)"

text \<open>
  signTransaction. \<open>Inl e\<close>: the call threw \<open>e\<close> before anything was announced.
  \<open>Inr r\<close>: the payload was handed to the announce request, and \<open>r\<close> is how the
  promise's continuation ended.
\<close>

definition signTransaction ::
  "sdk \<Rightarrow> cosignatory \<Rightarrow> transactionMetaDataPair \<Rightarrow> (response \<Rightarrow> world \<Rightarrow> outcome)
     \<Rightarrow> announce_result \<Rightarrow> world \<Rightarrow> js_error + outcome" where
  "signTransaction nem self transactionMetaDataPair callback settled w =
     (let trxHash = getTransactionHash transactionMetaDataPair True;
          privateKey = botSignSecret (cos_blockchain self)
      in if \<not> isPrivateKeyValid nem privateKey then Inl InvalidPrivateKey
         else case verifyTransaction nem self transactionMetaDataPair of
                Inl e \<Rightarrow> Inl e
              | Inr verified \<Rightarrow>
                  if \<not> verified then Inl InvalidTransactionMetaDataPair
                  else (let w1 = w\<lparr>announced := announced w @ [broadcastable nem self trxHash]\<rparr>
                        in Inr (case settled of
                                  Resolved res \<Rightarrow> announceThen trxHash callback res w1
                                | Rejected err \<Rightarrow> Completed (logger (SigningError err) w1))))"

text \<open>
  The callback the handler passes to signTransaction: it builds the row and saves it.
  Reading \<open>instance.nemsocket_.socketpt\<close> throws when the socket is \<open>null\<close>.
\<close>

definition saveSignedTransaction ::
  "cosignatory \<Rightarrow> transactionMetaDataPair \<Rightarrow> string option \<Rightarrow> number \<Rightarrow> int
     \<Rightarrow> response \<Rightarrow> world \<Rightarrow> outcome" where
  "saveSignedTransaction instance transactionMetaDataPair trxHash trxAmount now response w =
     (case cos_nemsocket instance of
        None \<Rightarrow> Uncaught TypeError w
      | Some socketpt \<Rightarrow>
          Completed (w\<lparr>signedTransactions := signedTransactions w @
            [\<lparr>multisigXEM = botSignMultisig (cos_blockchain instance),
              cosignerXEM = botSignWallet (cos_blockchain instance),
              transactionHash = trxHash,
              socketHost = socketpt,
              rowTransactionData = transactionMetaDataPair,
              amountXEM = trxAmount,
              createdAt = now\<rparr>]\<rparr>))"

text \<open>
  Modelled from the spec: the record store's aggregate-sum of \<open>amountXEM\<close> over all
  SignedTransactionRecord rows, delivered to the callback as \<open>aggregateData.dailyAmount\<close>;
  there is no aggregate over an empty collection.
\<close>

definition aggregateDailyAmount :: "NEMSignedTransaction list \<Rightarrow> number option" where
  "aggregateDailyAmount rows = (if rows = [] then None else Some (sum_list (map amountXEM rows)))"

text \<open>\<^verbatim>\<open>aggregateData && aggregateData.dailyAmount > 0 ? aggregateData.dailyAmount : 0\<close>\<close>

definition dailyAmtOf :: "number option \<Rightarrow> number" where
  "dailyAmtOf aggregateData = (case aggregateData of None \<Rightarrow> 0 | Some d \<Rightarrow> if d > 0 then d else 0)"

text \<open>
  The \<open>try\<close> block of the handler: signTransaction is called with the saving callback;
  what it throws is caught and logged.
\<close>

definition trySignTransaction ::
  "sdk \<Rightarrow> cosignatory \<Rightarrow> handler_env \<Rightarrow> transactionMetaDataPair \<Rightarrow> number \<Rightarrow> world \<Rightarrow> outcome" where
  "trySignTransaction nem instance env transactionMetaDataPair trxAmount w =
     (let trxHash = getTransactionHash transactionMetaDataPair True
      in case signTransaction nem instance transactionMetaDataPair
                (saveSignedTransaction instance transactionMetaDataPair trxHash trxAmount (clock env))
                (announceResult env) w of
           Inl e \<Rightarrow> Completed (logger (SigningAborted e) w)
         | Inr r \<Rightarrow> r)"

text \<open>
  The callback of the aggregate query: the two limit checks, then the \<open>try\<close> block.
  getTransactionAmount is called outside the \<open>try\<close>.
\<close>

definition aggregateCallback ::
  "sdk \<Rightarrow> cosignatory \<Rightarrow> handler_env \<Rightarrow> transactionMetaDataPair \<Rightarrow> number option
     \<Rightarrow> world \<Rightarrow> outcome" where
  "aggregateCallback nem instance env transactionMetaDataPair aggregateData w =
     (let dailyAmt = dailyAmtOf aggregateData;
          dailyMax = conf_dailyAmount (bc_conf (cos_blockchain instance))
      in if dailyMax > 0 \<and> dailyAmt \<ge> dailyMax
         then Completed (logger (LimitReached dailyMax) w)
         else case getTransactionAmountDefault nem transactionMetaDataPair of
                Inl e \<Rightarrow> Uncaught e w
              | Inr trxAmount \<Rightarrow>
                  if dailyMax > 0 \<and> dailyAmt + trxAmount > dailyMax
                  then Completed (logger (LimitWouldBePassed (dailyAmt + trxAmount)) w)
                  else trySignTransaction nem instance env transactionMetaDataPair trxAmount w)"

text \<open>
  automaticTransactionSigningHandler: look the hash up; a row or a database error ends
  the run, otherwise the aggregate query and its callback follow. The callbacks are run
  to their end before the next event is handled.
\<close>

definition automaticTransactionSigningHandler ::
  "sdk \<Rightarrow> cosignatory \<Rightarrow> handler_env \<Rightarrow> transactionMetaDataPair \<Rightarrow> world \<Rightarrow> outcome" where
  "automaticTransactionSigningHandler nem instance env transactionMetaDataPair w =
     (let trxHash = getTransactionHash transactionMetaDataPair True
      in case findOneErr env of
           Some err \<Rightarrow> Completed (logger (DatabaseError err) w)
         | None \<Rightarrow>
             (case find (\<lambda>r. transactionHash r = trxHash) (signedTransactions w) of
                Some signedTrx \<Rightarrow> Completed w
              | None \<Rightarrow>
                  aggregateCallback nem instance env transactionMetaDataPair
                    (aggregateDailyAmount (signedTransactions w)) w))"



section \<open>BlocksAuditor\<close>

record NEMBlockHeight =
  blockHeight :: int
  moduleName :: string
  heightCreatedAt :: int






text \<open>
  \<^verbatim>\<open>findOne({ moduleName: ... }, null, { sort: { blockHeight: -1 } }, ...)\<close>: the row of the
  module with the greatest block height.
\<close>

fun greatestHeight :: "NEMBlockHeight list \<Rightarrow> NEMBlockHeight option" where
  "greatestHeight [] = None"
| "greatestHeight (b # bs) =
     (case greatestHeight bs of
        None \<Rightarrow> Some b
      | Some c \<Rightarrow> if blockHeight c > blockHeight b then Some c else Some b)"

definition findLatestBlock :: "string \<Rightarrow> NEMBlockHeight list \<Rightarrow> NEMBlockHeight option" where
  "findLatestBlock modName store = greatestHeight (filter (\<lambda>b. moduleName b = modName) store)"


text \<open>
  What one firing of the interval of registerBlockDelayAuditor does, in order. The
  timeout carries the delay in milliseconds and runs autoSwitchSocketNode, which
  disconnects, selects the next node and connects again.
\<close>

datatype audit_effect =
    LogWarn
  | ClearInterval
  | SubscribeToBlockUpdates
  | WebsocketFallbackHandler
  | SetTimeoutAutoSwitchSocketNode int

definition limitAge :: "int \<Rightarrow> int" where
  "limitAge now = now - (5 * 60 * 1000)"

definition aliveInterval ::
  "string \<Rightarrow> string option \<Rightarrow> int \<Rightarrow> NEMBlockHeight list \<Rightarrow> audit_effect list" where
  "aliveInterval modName err now store =
     (case err of
        Some e \<Rightarrow> [LogWarn, ClearInterval, SubscribeToBlockUpdates]
      | None \<Rightarrow>
          (case findLatestBlock modName store of
             None \<Rightarrow>
               [LogWarn, ClearInterval, WebsocketFallbackHandler, LogWarn,
                SetTimeoutAutoSwitchSocketNode 3000]
           | Some block \<Rightarrow>
               if heightCreatedAt block \<le> limitAge now
               then [LogWarn, ClearInterval, WebsocketFallbackHandler, LogWarn,
                     SetTimeoutAutoSwitchSocketNode 3000]
               else []))"

text \<open>
  The selection loop of autoSwitchSocketNode:
  \<^verbatim>\<open>do {
    var cntNodes = nodesList.length;
    var randomIdx = Math.floor(Math.random() * (cntNodes - 1));
    nextHost = nodesList[randomIdx].host;
    nextPort = nodesList[randomIdx].port;
} while (nextHost == currentHost);\<close>
  The list argument holds the successive values of \<open>Math.random()\<close>, each in \<open>[0, 1)\<close>.
  \<open>None\<close>: the loop is still running after all of them. Reading \<open>.host\<close> of an
  element outside the array throws a TypeError.
\<close>

fun selectNode :: "node list \<Rightarrow> string \<Rightarrow> rat list \<Rightarrow> (js_error + node) option" where
  "selectNode nodesList currentHost [] = None"
| "selectNode nodesList currentHost (random # randoms) =
     (let cntNodes = int (length nodesList);
          randomIdx = \<lfloor>random * (of_int cntNodes - 1)\<rfloor>
      in if randomIdx < 0 \<or> randomIdx \<ge> cntNodes then Some (Inl TypeError)
         else (let next = nodesList ! nat randomIdx
               in if node_host next = currentHost
                  then selectNode nodesList currentHost randoms
                  else Some (Inr next)))"

text \<open>autoSwitchSocketNode installs the selected node as the active endpoint.\<close>

definition autoSwitchSocketNode :: "blockchain \<Rightarrow> rat list \<Rightarrow> (js_error + blockchain) option" where
  "autoSwitchSocketNode bc randoms =
     (let currentHost = node_host (bc_node bc);
          nodesList = conf_nodes (bc_conf bc)
      in case selectNode nodesList currentHost randoms of
           None \<Rightarrow> None
         | Some (Inl e) \<Rightarrow> Some (Inl e)
         | Some (Inr next) \<Rightarrow> Some (Inr (bc\<lparr>bc_node := next\<rparr>)))"

section \<open>Example inputs\<close>

text \<open>
  A stand-in for the SDK: multisig transactions have type 4100, a private key is valid
  when it has 64 characters, and an address is the public key behind a dashed prefix.
\<close>

definition exampleSdk :: sdk where
  "exampleSdk = \<lparr>multisigTransaction = 4100,
                  isPrivateKeyValid = (\<lambda>k. length k = 64),
                  toAddress = (\<lambda>k n. ''T-'' @ k),
                  signedPayload = (\<lambda>k m h n. m @ (case h of None \<Rightarrow> [] | Some x \<Rightarrow> x))\<rparr>"

definition exampleMeta :: meta_data where
  "exampleMeta = \<lparr>meta_hash = Some \<lparr>hash_data = Some ''OUTER''\<rparr>,
                   meta_innerHash = Some \<lparr>hash_data = Some ''ABC''\<rparr>,
                   meta_data_field = None\<rparr>"


definition plainTransfer :: transactionMetaDataPair where
  "plainTransfer = \<lparr>pair_meta = exampleMeta,
     pair_transaction = Trx 257 ''alice'' ''sig'' 5000000 None None\<rparr>"



definition exampleNodes :: "node list" where
  "exampleNodes = [\<lparr>node_host = ''alice.nem.ninja'', node_port = 7890\<rparr>,
                   \<lparr>node_host = ''bob.nem.ninja'', node_port = 7890\<rparr>]"

definition exampleBlockchain :: "number \<Rightarrow> string \<Rightarrow> blockchain" where
  "exampleBlockchain dailyMax secret =
     \<lparr>bc_conf = \<lparr>conf_dailyAmount = dailyMax,
                  conf_acceptFrom = CosigArray [''alice'', ''carol''],
                  conf_multisigAddress = ''TMULTI'',
                  conf_nodes = exampleNodes\<rparr>,
      botSignMultisig = ''TMULTI'',
      botSignWallet = ''TCOSIG'',
      botSignSecret = secret,
      bc_node = \<lparr>node_host = ''alice.nem.ninja'', node_port = 7890\<rparr>,
      networkId = - 104\<rparr>"

definition validSecret :: string where
  "validSecret = replicate 64 (CHR ''a'')"

definition exampleCosignatory :: "number \<Rightarrow> string \<Rightarrow> cosignatory" where
  "exampleCosignatory dailyMax secret =
     \<lparr>cos_blockchain = exampleBlockchain dailyMax secret,
      cos_nemsocket = Some ''alice.nem.ninja:7778''\<rparr>"

definition answering :: "number \<Rightarrow> string \<Rightarrow> handler_env" where
  "answering c m = \<lparr>findOneErr = None,
                    announceResult = Resolved \<lparr>res_code = c, res_message = m\<rparr>,
                    clock = 1500000000000\<rparr>"

definition emptyWorld :: world where
  "emptyWorld = \<lparr>signedTransactions = [], announced = [], logged = []\<rparr>"


text \<open>The same multisig transaction, initiated by a signer that is not listed.\<close>

definition unlistedCandidate :: transactionMetaDataPair where
  "unlistedCandidate = \<lparr>pair_meta = exampleMeta,
     pair_transaction = Trx 4100 ''mallory'' ''sig'' 0 None (Some (Trx 257 ''MULTI'' ''sig2'' 10 None None))\<rparr>"

section \<open>Theorems\<close>

subsection \<open>The transaction hash\<close>

text \<open>
  C10. With its default \<open>inner = true\<close>, getTransactionHash returns the data of the inner
  hash whenever an inner hash is present with non-empty data; otherwise the data of
  \<open>meta.hash\<close> when \<open>meta.hash\<close> is present; otherwise \<open>meta.data\<close>.
\<close>

theorem getTransactionHash_inner_first:
  "(\<forall>ih d. meta_innerHash (pair_meta p) = Some ih \<and> hash_data ih = Some d \<and> d \<noteq> []
           \<longrightarrow> getTransactionHash p True = Some d) \<and>
   (\<forall>h. \<not> (\<exists>ih d. meta_innerHash (pair_meta p) = Some ih \<and> hash_data ih = Some d \<and> d \<noteq> [])
         \<and> meta_hash (pair_meta p) = Some h
         \<longrightarrow> getTransactionHash p True = hash_data h) \<and>
   (\<not> (\<exists>ih d. meta_innerHash (pair_meta p) = Some ih \<and> hash_data ih = Some d \<and> d \<noteq> [])
         \<and> meta_hash (pair_meta p) = None
         \<longrightarrow> getTransactionHash p True = meta_data_field (pair_meta p))"
  by (auto simp: getTransactionHash_def Let_def split: option.splits if_splits)

text \<open>The three cases of C10 at concrete metadata.\<close>

theorem getTransactionHash_inner_first_witness:
  "getTransactionHash plainTransfer True = Some ''ABC'' \<and>
   getTransactionHash (plainTransfer\<lparr>pair_meta := exampleMeta\<lparr>meta_innerHash := Some \<lparr>hash_data = Some []\<rparr>\<rparr>\<rparr>) True
     = Some ''OUTER'' \<and>
   getTransactionHash (plainTransfer\<lparr>pair_meta :=
       \<lparr>meta_hash = None, meta_innerHash = None, meta_data_field = Some ''DATA''\<rparr>\<rparr>) True
     = Some ''DATA''"
  using getTransactionHash_inner_first [of plainTransfer]
    getTransactionHash_inner_first [of "plainTransfer\<lparr>pair_meta := exampleMeta\<lparr>meta_innerHash := Some \<lparr>hash_data = Some []\<rparr>\<rparr>\<rparr>"]
    getTransactionHash_inner_first [of "plainTransfer\<lparr>pair_meta :=
       \<lparr>meta_hash = None, meta_innerHash = None, meta_data_field = Some ''DATA''\<rparr>\<rparr>"]
  by (simp add: plainTransfer_def exampleMeta_def)

subsection \<open>The transaction amount\<close>









subsection \<open>The co-signing handler: auxiliary facts\<close>

lemma acceptLoop_set: "acceptLoop cosigs k \<longleftrightarrow> k \<in> set cosigs"
  by (induction cosigs) auto

lemma isAcceptedCosignatory_iff:
  "isAcceptedCosignatory self k \<longleftrightarrow>
     (case conf_acceptFrom (bc_conf (cos_blockchain self)) of
        CosigString s \<Rightarrow> s = k
      | CosigArray xs \<Rightarrow> k \<in> set xs)"
  by (simp add: isAcceptedCosignatory_def acceptLoop_set split: cosigs.splits)

lemma verifyTransaction_unlisted:
  "\<not> isAcceptedCosignatory self (trx_signer (pair_transaction p)) \<Longrightarrow>
   verifyTransaction nem self p \<noteq> Inr True"
  by (simp add: verifyTransaction_def Let_def split: option.splits)

lemma signTransaction_cases:
  "signTransaction nem self p cb settled w =
     (if \<not> isPrivateKeyValid nem (botSignSecret (cos_blockchain self)) then Inl InvalidPrivateKey
      else case verifyTransaction nem self p of
             Inl e \<Rightarrow> Inl e
           | Inr False \<Rightarrow> Inl InvalidTransactionMetaDataPair
           | Inr True \<Rightarrow>
               Inr (case settled of
                      Resolved res \<Rightarrow>
                        announceThen (getTransactionHash p True) cb res
                          (w\<lparr>announced := announced w @ [broadcastable nem self (getTransactionHash p True)]\<rparr>)
                    | Rejected err \<Rightarrow>
                        Completed (logger (SigningError err)
                          (w\<lparr>announced := announced w @ [broadcastable nem self (getTransactionHash p True)]\<rparr>))))"
  unfolding signTransaction_def Let_def
  by (simp split: sum.splits bool.splits)

lemma signTransaction_unlisted:
  "\<not> isAcceptedCosignatory self (trx_signer (pair_transaction p)) \<Longrightarrow>
   \<exists>e. signTransaction nem self p cb settled w = Inl e"
  using verifyTransaction_unlisted [of self p nem]
  by (auto simp: signTransaction_cases split: sum.splits bool.splits)

lemma trySignTransaction_throw:
  "signTransaction nem inst p
     (saveSignedTransaction inst p (getTransactionHash p True) a (clock env))
     (announceResult env) w = Inl e \<Longrightarrow>
   trySignTransaction nem inst env p a w = Completed (logger (SigningAborted e) w)"
  by (simp add: trySignTransaction_def)

lemma aggregateCallback_cases:
  "aggregateCallback nem inst env p agg w =
     (if conf_dailyAmount (bc_conf (cos_blockchain inst)) > 0 \<and>
         dailyAmtOf agg \<ge> conf_dailyAmount (bc_conf (cos_blockchain inst))
      then Completed (logger (LimitReached (conf_dailyAmount (bc_conf (cos_blockchain inst)))) w)
      else case getTransactionAmountDefault nem p of
             Inl e \<Rightarrow> Uncaught e w
           | Inr a \<Rightarrow>
               if conf_dailyAmount (bc_conf (cos_blockchain inst)) > 0 \<and>
                  dailyAmtOf agg + a > conf_dailyAmount (bc_conf (cos_blockchain inst))
               then Completed (logger (LimitWouldBePassed (dailyAmtOf agg + a)) w)
               else trySignTransaction nem inst env p a w)"
  unfolding aggregateCallback_def Let_def by simp

lemma handler_cases:
  "automaticTransactionSigningHandler nem inst env p w =
     (case findOneErr env of
        Some err \<Rightarrow> Completed (logger (DatabaseError err) w)
      | None \<Rightarrow>
          (case find (\<lambda>r. transactionHash r = getTransactionHash p True) (signedTransactions w) of
             Some signedTrx \<Rightarrow> Completed w
           | None \<Rightarrow> aggregateCallback nem inst env p (aggregateDailyAmount (signedTransactions w)) w))"
  by (simp add: automaticTransactionSigningHandler_def Let_def)

lemma logger_fields [simp]:
  "signedTransactions (logger e w) = signedTransactions w"
  "announced (logger e w) = announced w"
  "logged (logger e w) = logged w @ [e]"
  by (simp_all add: logger_def)













subsection \<open>Allow-list enforcement\<close>

text \<open>
  C2. For every candidate whose initiating signer is not in the configured allow-list
  (a string or an array of public keys), whatever its amount and whatever account it is
  for: verifyTransaction does not return true (it returns false whenever the real
  content is there to read), signTransaction throws before anything is announced, and a
  run of the handler neither announces a co-signature nor stores a signed-transaction
  row.
\<close>

theorem unlisted_signer_never_signed:
  assumes "case conf_acceptFrom (bc_conf (cos_blockchain inst)) of
             CosigString s \<Rightarrow> trx_signer (pair_transaction p) \<noteq> s
           | CosigArray xs \<Rightarrow> trx_signer (pair_transaction p) \<notin> set xs"
  shows "verifyTransaction nem inst p \<noteq> Inr True \<and>
         (realContent nem (pair_transaction p) \<noteq> None \<longrightarrow>
            verifyTransaction nem inst p = Inr False) \<and>
         (\<exists>e. signTransaction nem inst p cb settled w = Inl e) \<and>
         signedTransactions (world_of (automaticTransactionSigningHandler nem inst env p w))
           = signedTransactions w \<and>
         announced (world_of (automaticTransactionSigningHandler nem inst env p w)) = announced w"
proof -
  from assms have un: "\<not> isAcceptedCosignatory inst (trx_signer (pair_transaction p))"
    by (simp add: isAcceptedCosignatory_iff split: cosigs.splits)
  have thrown: "\<exists>e. signTransaction nem inst p cb' settled' w = Inl e" for cb' settled'
    using un by (rule signTransaction_unlisted)
  have tried: "\<exists>e. trySignTransaction nem inst env p a w = Completed (logger (SigningAborted e) w)" for a
    using thrown [of "saveSignedTransaction inst p (getTransactionHash p True) a (clock env)"
        "announceResult env"]
    by (auto simp: trySignTransaction_def)
  have "signedTransactions (world_of (automaticTransactionSigningHandler nem inst env p w))
           = signedTransactions w \<and>
         announced (world_of (automaticTransactionSigningHandler nem inst env p w)) = announced w"
  proof (cases "getTransactionAmountDefault nem p")
    case (Inl e)
    then show ?thesis
      by (simp add: handler_cases aggregateCallback_cases split: option.splits)
  next
    case (Inr a)
    from tried [of a] obtain e where
      "trySignTransaction nem inst env p a w = Completed (logger (SigningAborted e) w)" ..
    with Inr show ?thesis
      by (simp add: handler_cases aggregateCallback_cases split: option.splits)
  qed
  moreover have "realContent nem (pair_transaction p) \<noteq> None \<longrightarrow>
            verifyTransaction nem inst p = Inr False"
    using un by (auto simp: verifyTransaction_def realContent_def Let_def)
  ultimately show ?thesis
    using verifyTransaction_unlisted [OF un] thrown by blast
qed

text \<open>
  An unlisted signer with a valid key, a matching account and an amount under the
  ceiling: nothing is announced or stored.
\<close>

theorem unlisted_signer_never_signed_witness:
  "trx_signer (pair_transaction unlistedCandidate) \<notin> set [''alice'', ''carol''] \<and>
   signedTransactions (world_of (automaticTransactionSigningHandler exampleSdk
      (exampleCosignatory 100 validSecret) (answering 1 ''SUCCESS'') unlistedCandidate emptyWorld)) = [] \<and>
   announced (world_of (automaticTransactionSigningHandler exampleSdk
      (exampleCosignatory 100 validSecret) (answering 1 ''SUCCESS'') unlistedCandidate emptyWorld)) = []"
  using unlisted_signer_never_signed [where inst = "exampleCosignatory 100 validSecret"
      and p = unlistedCandidate and nem = exampleSdk and w = emptyWorld
      and env = "answering 1 ''SUCCESS''"]
  by (simp add: exampleCosignatory_def exampleBlockchain_def unlistedCandidate_def emptyWorld_def)

subsection \<open>The daily limit\<close>




subsection \<open>Idempotency\<close>




subsection \<open>The announce response\<close>



subsection \<open>An invalid private key\<close>





subsection \<open>Endpoint selection\<close>

lemma floor_index:
  fixes r :: rat
  assumes "0 \<le> r" "r < 1" "0 < k"
  shows "0 \<le> \<lfloor>r * of_nat k\<rfloor> \<and> \<lfloor>r * of_nat k\<rfloor> < int k"
proof -
  have "0 \<le> r * of_nat k" using assms by simp
  moreover have "r * of_nat k < of_nat k"
    using assms by (simp add: mult_less_cancel_right2)
  ultimately show ?thesis
    by (simp add: floor_less_iff)
qed

lemma selectNode_stuck:
  assumes "pre \<noteq> []" and "\<forall>n\<in>set pre. node_host n = cur"
    and "\<forall>r\<in>set rs. 0 \<le> r \<and> r < 1"
  shows "selectNode (pre @ [l]) cur rs = None"
  using assms(3)
proof (induction rs)
  case Nil
  then show ?case by simp
next
  case (Cons r rs)
  have k: "0 < length pre" using assms(1) by simp
  from Cons.prems have "0 \<le> r" "r < 1" by simp_all
  from floor_index [OF this k]
  have idx: "0 \<le> \<lfloor>r * of_nat (length pre)\<rfloor>" "\<lfloor>r * of_nat (length pre)\<rfloor> < int (length pre)"
    by simp_all
  then have "nat \<lfloor>r * of_nat (length pre)\<rfloor> < length pre" by arith
  then have "(pre @ [l]) ! nat \<lfloor>r * of_nat (length pre)\<rfloor> \<in> set pre"
    by (simp add: nth_append)
  with assms(2) have "node_host ((pre @ [l]) ! nat \<lfloor>r * of_nat (length pre)\<rfloor>) = cur"
    by blast
  moreover have "\<not> r * of_nat (length pre) < 0"
    using \<open>0 \<le> r\<close> by (simp add: not_less)
  ultimately show ?case
    using idx Cons by (simp add: Let_def)
qed

lemma selectNode_result:
  "selectNode nodesList cur rs = Some (Inr n) \<Longrightarrow> n \<in> set nodesList \<and> node_host n \<noteq> cur"
proof (induction rs)
  case Nil
  then show ?case by simp
next
  case (Cons r rs)
  let ?i = "\<lfloor>r * (of_int (int (length nodesList)) - 1)\<rfloor>"
  show ?case
  proof (cases "?i < 0 \<or> ?i \<ge> int (length nodesList)")
    case True
    with Cons.prems show ?thesis by (simp add: Let_def)
  next
    case False
    then have "nat ?i < length nodesList" by arith
    then have mem: "nodesList ! nat ?i \<in> set nodesList" by (rule nth_mem)
    show ?thesis
    proof (cases "node_host (nodesList ! nat ?i) = cur")
      case True
      with False Cons show ?thesis by (simp add: Let_def)
    next
      case ne: False
      with False Cons.prems have "n = nodesList ! nat ?i" by (simp add: Let_def)
      with mem ne show ?thesis by simp
    qed
  qed
qed

text \<open>
  C7 fails on the code. With the two distinct hosts of the example configuration and
  the first of them active, the index \<open>floor (random * (cntNodes - 1))\<close> is always 0:
  whatever values \<open>Math.random()\<close> returns, the loop of autoSwitchSocketNode selects the
  active host again and does not end.
\<close>

theorem autoSwitchSocketNode_never_ends:
  assumes "\<forall>r\<in>set randoms. 0 \<le> r \<and> r < 1"
  shows "autoSwitchSocketNode (exampleBlockchain 100 validSecret) randoms = None"
proof -
  have "selectNode ([\<lparr>node_host = ''alice.nem.ninja'', node_port = 7890\<rparr>] @
                     [\<lparr>node_host = ''bob.nem.ninja'', node_port = 7890\<rparr>])
          ''alice.nem.ninja'' randoms = None"
    using assms by (intro selectNode_stuck) auto
  then show ?thesis
    by (simp add: autoSwitchSocketNode_def exampleBlockchain_def exampleNodes_def)
qed

text \<open>
  Three values of \<open>Math.random()\<close>.
\<close>

theorem autoSwitchSocketNode_never_ends_witness:
  "autoSwitchSocketNode (exampleBlockchain 100 validSecret) [0, 1 / 2, 9 / 10] = None"
  using autoSwitchSocketNode_never_ends [of "[0, 1 / 2, 9 / 10]"] by simp

subsection \<open>The staleness check\<close>

lemma aliveInterval_iff:
  "SetTimeoutAutoSwitchSocketNode 3000 \<in> set (aliveInterval m None now store) \<longleftrightarrow>
     (case findLatestBlock m store of
        None \<Rightarrow> True
      | Some block \<Rightarrow> heightCreatedAt block \<le> now - 300000)"
  by (simp add: aliveInterval_def limitAge_def split: option.splits)

text \<open>
  C8 at the threshold. A latest height record created exactly 5 minutes before the
  check is not older than 5 minutes, and yet the check starts the switch sequence.
\<close>

theorem aliveInterval_switches_at_threshold:
  "aliveInterval m None (t + 300000)
     [\<lparr>blockHeight = h, moduleName = m, heightCreatedAt = t\<rparr>]
   = [LogWarn, ClearInterval, WebsocketFallbackHandler, LogWarn,
      SetTimeoutAutoSwitchSocketNode 3000]"
  by (simp add: aliveInterval_def findLatestBlock_def limitAge_def)

subsection \<open>The block-height store\<close>







end
